theory Spec2Isabelle
  imports Complex_Main
begin

section \<open>Entity collision system (libraries/entities/src/EntityCollisionSystem.cpp)\<close>

text \<open>
  A shallow embedding of \<^verbatim>\<open>EntityCollisionSystem\<close>. The C++ computes on
  \<^verbatim>\<open>float\<close> and \<^verbatim>\<open>glm::vec3\<close>; the embedding computes on \<^typ>\<open>real\<close>,
  so every statement below is about the algorithm in exact arithmetic. Where the C++
  would divide by zero (and produce an infinity or a NaN) the theorems carry the
  hypothesis that excludes it, or show that the branch cannot be reached.
\<close>

subsection \<open>glm::vec3\<close>

datatype vec3 = Vec3 (vx: real) (vy: real) (vz: real)

text \<open>\<^verbatim>\<open>a + b\<close>, \<^verbatim>\<open>a - b\<close>, \<^verbatim>\<open>k * a\<close> (also written \<^verbatim>\<open>a * k\<close>) and
  \<^verbatim>\<open>a / k\<close>, all componentwise.\<close>

fun v_add :: "vec3 \<Rightarrow> vec3 \<Rightarrow> vec3" where
  "v_add (Vec3 a b c) (Vec3 d e f) = Vec3 (a + d) (b + e) (c + f)"

fun v_sub :: "vec3 \<Rightarrow> vec3 \<Rightarrow> vec3" where
  "v_sub (Vec3 a b c) (Vec3 d e f) = Vec3 (a - d) (b - e) (c - f)"

fun v_scale :: "real \<Rightarrow> vec3 \<Rightarrow> vec3" where
  "v_scale k (Vec3 a b c) = Vec3 (k * a) (k * b) (k * c)"

fun v_div :: "vec3 \<Rightarrow> real \<Rightarrow> vec3" where
  "v_div (Vec3 a b c) k = Vec3 (a / k) (b / k) (c / k)"

text \<open>\<^verbatim>\<open>glm::dot\<close>, \<^verbatim>\<open>glm::length\<close> (the square root of the dot product of a vector
  with itself), \<^verbatim>\<open>glm::normalize\<close> (the vector times the inverse square root of that
  dot product) and the scalar \<^verbatim>\<open>glm::clamp(x, lo, hi)\<close>.\<close>

fun dot :: "vec3 \<Rightarrow> vec3 \<Rightarrow> real" where
  "dot (Vec3 a b c) (Vec3 d e f) = a * d + b * e + c * f"

definition glm_length :: "vec3 \<Rightarrow> real" where
  "glm_length v = sqrt (dot v v)"

definition glm_normalize :: "vec3 \<Rightarrow> vec3" where
  "glm_normalize v = v_scale (1 / sqrt (dot v v)) v"

definition glm_clamp :: "real \<Rightarrow> real \<Rightarrow> real \<Rightarrow> real" where
  "glm_clamp x lo hi = min (max x lo) hi"

subsection \<open>Entities, contacts and the simulation state\<close>

text \<open>
  An \<^verbatim>\<open>EntityItem*\<close> is an address into the entity tree; the tree is a store from
  addresses to entities, and every read through a pointer reads the store as it is at
  that moment. Position, velocity, radius and largest dimension are in tree units, as
  \<^verbatim>\<open>getPosition()\<close>, \<^verbatim>\<open>getVelocity()\<close>, \<^verbatim>\<open>getRadius()\<close> and
  \<^verbatim>\<open>getLargestDimension()\<close> return them. \<open>mass\<close> is what \<^verbatim>\<open>computeMass()\<close>
  returns; \<open>entityID\<close> stands for both \<^verbatim>\<open>getID()\<close> and
  \<^verbatim>\<open>getEntityItemID()\<close>.
\<close>

type_synonym entity_ptr = nat

record EntityItem =
  entityID :: nat
  isKnownID :: bool
  ignoreForCollisions :: bool
  collisionsWillMove :: bool
  position :: vec3
  velocity :: vec3
  radius :: real
  largestDimension :: real
  mass :: real
  lastEdited :: nat

text \<open>The three properties this file sets on the copy that \<^verbatim>\<open>getProperties()\<close>
  returns; every other property of the copy is the entity's own and is written back
  unchanged. Position and velocity are in meters here.\<close>

record EntityItemProperties =
  p_position :: vec3
  p_velocity :: vec3
  p_lastEdited :: nat

text \<open>\<^verbatim>\<open>CollisionInfo\<close>: \<open>c_extraData\<close> is the \<^verbatim>\<open>_extraData\<close> pointer, \<open>None\<close>
  for \<^verbatim>\<open>NULL\<close>.\<close>

record CollisionInfo =
  c_penetration :: vec3
  c_contactPoint :: vec3
  c_addedVelocity :: vec3
  c_damping :: real
  c_elasticity :: real
  c_extraData :: "entity_ptr option"

text \<open>The payload of the \<^verbatim>\<open>entityCollisionWithEntity\<close> signal.\<close>

record Collision =
  penetration :: vec3
  contactPoint :: vec3

text \<open>
  Modelled from the spec: \<^verbatim>\<open>CollisionList\<close> is declared outside the files at hand.
  It is the spec's bounded, reusable collection of contact records: a capacity fixed at
  construction and the records held so far; a record offered to a full list is dropped.
\<close>

record CollisionList =
  maxSize :: nat
  contacts :: "CollisionInfo list"

definition CollisionList_new :: "nat \<Rightarrow> CollisionList" where
  "CollisionList_new n = \<lparr>maxSize = n, contacts = []\<rparr>"

definition cl_size :: "CollisionList \<Rightarrow> nat" where
  "cl_size l = length (contacts l)"

definition cl_clear :: "CollisionList \<Rightarrow> CollisionList" where
  "cl_clear l = l\<lparr>contacts := []\<rparr>"

fun cl_add :: "CollisionList \<Rightarrow> CollisionInfo list \<Rightarrow> CollisionList" where
  "cl_add l [] = l"
| "cl_add l (c # cs) =
     (if cl_size l < maxSize l then cl_add (l\<lparr>contacts := contacts l @ [c]\<rparr>) cs
      else cl_add l cs)"

text \<open>
  Modelled from the spec: \<^verbatim>\<open>AvatarData\<close> is declared outside the files at hand. An
  avatar has a position and a bounding radius (in meters) and answers a sphere-overlap
  query; \<open>sphereContacts\<close> gives the contacts its shapes report for a sphere.
  \<^verbatim>\<open>findSphereCollisions\<close> offers them to the caller's list and says whether any
  was recorded.
\<close>

record AvatarData =
  a_position :: vec3
  boundingRadius :: real
  sphereContacts :: "vec3 \<Rightarrow> real \<Rightarrow> CollisionInfo list"

definition findSphereCollisions ::
    "AvatarData \<Rightarrow> vec3 \<Rightarrow> real \<Rightarrow> CollisionList \<Rightarrow> bool \<times> CollisionList" where
  "findSphereCollisions avatar center r l =
     (let l' = cl_add l (sphereContacts avatar center r)
      in (cl_size l < cl_size l', l'))"

text \<open>The write lock of the tree, as \<^verbatim>\<open>tryLockForWrite\<close> and \<^verbatim>\<open>unlock\<close> see it.\<close>

datatype lock_state = Unlocked | LockedByOther | LockedForWrite

text \<open>
  The collision system with its collaborators: the tree (store and lock), the set of
  moving entities in iteration order, the member list \<^verbatim>\<open>_collisions\<close>, the packet
  sender's queue, the signals emitted so far, the avatar hash as the dependency manager
  hands it out (\<open>None\<close> when there is none), the tree's narrow phase
  (\<open>shapeContacts\<close>: the overlaps it finds for the shape of an entity, given the store)
  and the clock that \<^verbatim>\<open>usecTimestampNow()\<close> reads.
\<close>

record sim =
  entityTree :: "entity_ptr \<Rightarrow> EntityItem"
  treeLock :: lock_state
  movingEntities :: "entity_ptr list"
  m_collisions :: CollisionList
  packetQueue :: "(nat \<times> EntityItemProperties) list"
  emitted :: "(nat \<times> nat \<times> Collision) list"
  avatarHash :: "AvatarData list option"
  shapeContacts :: "(entity_ptr \<Rightarrow> EntityItem) \<Rightarrow> entity_ptr \<Rightarrow> CollisionInfo list"
  clock :: nat

definition MAX_COLLISIONS_PER_Entity :: nat where
  "MAX_COLLISIONS_PER_Entity = 16"

definition usecTimestampNow :: "sim \<Rightarrow> nat" where
  "usecTimestampNow s = clock s"

text \<open>
  Modelled from the spec: \<^verbatim>\<open>EntityTree::updateEntity\<close> is outside the files at hand.
  It applies a property update to the entity behind the pointer; the entity keeps its
  position and velocity in tree units, so the meters of the update are divided by the
  world scale.
\<close>

definition updateEntity :: "real \<Rightarrow> sim \<Rightarrow> entity_ptr \<Rightarrow> EntityItemProperties \<Rightarrow> sim" where
  "updateEntity TREE_SCALE s entity properties =
     s\<lparr>entityTree := (entityTree s)(entity := (entityTree s entity)
          \<lparr>position := v_div (p_position properties) TREE_SCALE,
           velocity := v_div (p_velocity properties) TREE_SCALE,
           lastEdited := p_lastEdited properties\<rparr>)\<rparr>"

definition queueEditEntityMessage :: "sim \<Rightarrow> nat \<Rightarrow> EntityItemProperties \<Rightarrow> sim" where
  "queueEditEntityMessage s eid properties =
     s\<lparr>packetQueue := packetQueue s @ [(eid, properties)]\<rparr>"

subsection \<open>applyHardCollision\<close>

definition HALTING_ENTITY_PERIOD :: real where
  "HALTING_ENTITY_PERIOD = 0.0167"

definition HALTING_ENTITY_SPEED :: "real \<Rightarrow> real" where
  "HALTING_ENTITY_SPEED TREE_SCALE = 9.8 * HALTING_ENTITY_PERIOD / TREE_SCALE"

definition EPSILON :: real where
  "EPSILON = 0"

text \<open>The computation of \<^verbatim>\<open>applyHardCollision\<close> between reading the entity's position
  and velocity and building the property update: the corrected position and velocity.\<close>

definition hardCollisionResponse ::
    "real \<Rightarrow> vec3 \<Rightarrow> vec3 \<Rightarrow> CollisionInfo \<Rightarrow> vec3 \<times> vec3" where
  "hardCollisionResponse TREE_SCALE position0 velocity0 collisionInfo =
     (let relativeVelocity = v_sub (c_addedVelocity collisionInfo) velocity0;
          velocityDotPenetration = dot relativeVelocity (c_penetration collisionInfo)
      in if velocityDotPenetration < EPSILON then
           (let position1 = v_sub position0 (c_penetration collisionInfo)
            in if glm_length relativeVelocity < HALTING_ENTITY_SPEED TREE_SCALE then
                 (position1, c_addedVelocity collisionInfo)
               else
                 (let direction = glm_normalize (c_penetration collisionInfo);
                      velocity1 = v_add velocity0
                        (v_scale (dot relativeVelocity direction * (1 + c_elasticity collisionInfo))
                           direction);
                      velocity2 = v_add velocity1
                        (v_scale (glm_clamp (c_damping collisionInfo) 0 1)
                           (v_sub relativeVelocity
                              (v_scale (dot relativeVelocity direction) direction)))
                  in (position1, velocity2)))
         else (position0, velocity0))"

definition applyHardCollision :: "real \<Rightarrow> sim \<Rightarrow> entity_ptr \<Rightarrow> CollisionInfo \<Rightarrow> sim" where
  "applyHardCollision TREE_SCALE s entity collisionInfo =
     (if \<not> isKnownID (entityTree s entity) then s
      else
        (let (position1, velocity1) =
               hardCollisionResponse TREE_SCALE (position (entityTree s entity))
                 (velocity (entityTree s entity)) collisionInfo;
             properties = \<lparr>p_position = v_scale TREE_SCALE position1,
                           p_velocity = v_scale TREE_SCALE velocity1,
                           p_lastEdited = usecTimestampNow s\<rparr>;
             s1 = updateEntity TREE_SCALE s entity properties
         in queueEditEntityMessage s1 (entityID (entityTree s entity)) properties))"

subsection \<open>updateCollisionWithEntities\<close>

definition MAX_COLLISIONS_PER_ENTITY :: nat where
  "MAX_COLLISIONS_PER_ENTITY = 32"

text \<open>
  Modelled from the spec: \<^verbatim>\<open>EntityTree::findShapeCollisions\<close> is outside the files at
  hand. It offers the overlaps of the shape to the caller's bounded list and says
  whether any was recorded.
\<close>

definition findShapeCollisions ::
    "sim \<Rightarrow> entity_ptr \<Rightarrow> CollisionList \<Rightarrow> bool \<times> CollisionList" where
  "findShapeCollisions s entityA l =
     (let l' = cl_add l (shapeContacts s (entityTree s) entityA)
      in (cl_size l < cl_size l', l'))"

definition emitGlobalEntityCollisionWithEntity ::
    "sim \<Rightarrow> entity_ptr \<Rightarrow> entity_ptr \<Rightarrow> Collision \<Rightarrow> sim" where
  "emitGlobalEntityCollisionWithEntity s entityA entityB collision =
     (let idA = entityID (entityTree s entityA);
          idB = entityID (entityTree s entityB)
      in s\<lparr>emitted := emitted s @ [(idA, idB, collision)]\<rparr>)"

text \<open>The two velocity-response ratios, with the fix-up for a pair of which one side
  does not move.\<close>

definition massRatios :: "bool \<Rightarrow> bool \<Rightarrow> real \<Rightarrow> real \<Rightarrow> real \<times> real" where
  "massRatios wantToMoveA wantToMoveB massA massB =
     (let totalMass = massA + massB;
          massRatioA = 2 * massB / totalMass;
          massRatioB = 2 * massA / totalMass;
          (massRatioA, massRatioB) =
             (if wantToMoveA \<and> \<not> wantToMoveB then (2, 0) else (massRatioA, massRatioB));
          (massRatioA, massRatioB) =
             (if \<not> wantToMoveA \<and> wantToMoveB then (0, 2) else (massRatioA, massRatioB))
      in (massRatioA, massRatioB))"

text \<open>One pass of the loop over the contacts of entity A: the contact \<open>collision\<close>
  with the entity behind its \<^verbatim>\<open>_extraData\<close>.\<close>

definition collideWithEntity :: "real \<Rightarrow> sim \<Rightarrow> entity_ptr \<Rightarrow> CollisionInfo \<Rightarrow> sim" where
  "collideWithEntity TREE_SCALE s entityA collision =
     (case c_extraData collision of
        None \<Rightarrow> s
      | Some entityB \<Rightarrow>
          if \<not> isKnownID (entityTree s entityB) then s
          else
            (let penetration0 = c_penetration collision;
                 penetrationInTreeUnits = v_div penetration0 TREE_SCALE;
                 relativeVelocity =
                   v_sub (velocity (entityTree s entityA)) (velocity (entityTree s entityB));
                 fullyEnclosedCollision =
                   (glm_length penetrationInTreeUnits > largestDimension (entityTree s entityA));
                 wantToMoveA = collisionsWillMove (entityTree s entityA);
                 wantToMoveB = collisionsWillMove (entityTree s entityB);
                 movingTowardEachOther = (dot relativeVelocity penetrationInTreeUnits > 0);
                 doCollisions = (\<not> fullyEnclosedCollision \<and> movingTowardEachOther
                                  \<and> (wantToMoveA \<or> wantToMoveB))
             in if doCollisions then
                  (let now = usecTimestampNow s;
                       axis = glm_normalize penetration0;
                       axialVelocity = v_scale (dot relativeVelocity axis) axis;
                       (massRatioA, massRatioB) =
                          massRatios wantToMoveA wantToMoveB
                            (mass (entityTree s entityA)) (mass (entityTree s entityB));
                       s1 = (if wantToMoveA then
                               (let newVelocityA = v_sub (velocity (entityTree s entityA))
                                                     (v_scale massRatioA axialVelocity);
                                    newPositionA = v_sub (position (entityTree s entityA))
                                                     (v_scale 0.5 penetrationInTreeUnits);
                                    propertiesA = \<lparr>p_position = v_scale TREE_SCALE newPositionA,
                                                   p_velocity = v_scale TREE_SCALE newVelocityA,
                                                   p_lastEdited = now\<rparr>
                                in queueEditEntityMessage
                                     (updateEntity TREE_SCALE s entityA propertiesA)
                                     (entityID (entityTree s entityA)) propertiesA)
                             else s);
                       s2 = (if wantToMoveB then
                               (let newVelocityB = v_add (velocity (entityTree s1 entityB))
                                                     (v_scale massRatioB axialVelocity);
                                    newPositionB = v_add (position (entityTree s1 entityB))
                                                     (v_scale 0.5 penetrationInTreeUnits);
                                    propertiesB = \<lparr>p_position = v_scale TREE_SCALE newPositionB,
                                                   p_velocity = v_scale TREE_SCALE newVelocityB,
                                                   p_lastEdited = now\<rparr>
                                in queueEditEntityMessage
                                     (updateEntity TREE_SCALE s1 entityB propertiesB)
                                     (entityID (entityTree s1 entityB)) propertiesB)
                             else s1);
                       collision1 = \<lparr>penetration = penetration0,
                                      contactPoint = v_scale (0.5 * TREE_SCALE)
                                        (v_add (position (entityTree s2 entityA))
                                               (position (entityTree s2 entityB)))\<rparr>
                   in emitGlobalEntityCollisionWithEntity s2 entityA entityB collision1)
                else s))"

text \<open>The loop \<^verbatim>\<open>for (i = 0; i < collisions.size(); i++)\<close>: the local list is not
  written while it runs, so it is a traversal of its records in order.\<close>

fun collideWithEntities :: "real \<Rightarrow> sim \<Rightarrow> entity_ptr \<Rightarrow> CollisionInfo list \<Rightarrow> sim" where
  "collideWithEntities TREE_SCALE s entityA [] = s"
| "collideWithEntities TREE_SCALE s entityA (collision # rest) =
     collideWithEntities TREE_SCALE (collideWithEntity TREE_SCALE s entityA collision) entityA rest"

definition updateCollisionWithEntities :: "real \<Rightarrow> sim \<Rightarrow> entity_ptr \<Rightarrow> sim" where
  "updateCollisionWithEntities TREE_SCALE s entityA =
     (if ignoreForCollisions (entityTree s entityA) then s
      else if \<not> isKnownID (entityTree s entityA) then s
      else
        (let collisions0 = CollisionList_new MAX_COLLISIONS_PER_ENTITY;
             (shapeCollisions, collisions1) = findShapeCollisions s entityA collisions0
         in if shapeCollisions then
              collideWithEntities TREE_SCALE s entityA (contacts collisions1)
            else s))"

subsection \<open>updateCollisionWithAvatars\<close>

definition ELASTICITY :: real where
  "ELASTICITY = 0.9"

definition DAMPING :: real where
  "DAMPING = 0.1"

text \<open>One pass of the inner loop: record \<open>i\<close> of the member list \<^verbatim>\<open>_collisions\<close> is
  annotated in place, its added velocity is divided by the world scale in place, and
  when the closing test passes its penetration is divided in place and the hard
  collision is applied. \<open>i\<close> is below the size of the list, which the loop read just
  before.\<close>

definition collideWithAvatarContact :: "real \<Rightarrow> entity_ptr \<Rightarrow> sim \<Rightarrow> nat \<Rightarrow> sim" where
  "collideWithAvatarContact TREE_SCALE entity s i =
     (let collision0 = contacts (m_collisions s) ! i;
          collision1 = collision0\<lparr>c_damping := DAMPING, c_elasticity := ELASTICITY,
                         c_addedVelocity := v_div (c_addedVelocity collision0) TREE_SCALE\<rparr>;
          relativeVelocity = v_sub (c_addedVelocity collision1) (velocity (entityTree s entity))
      in if dot relativeVelocity (c_penetration collision1) \<le> 0 then
           (let collision2 = collision1\<lparr>c_penetration :=
                                v_div (c_penetration collision1) TREE_SCALE\<rparr>;
                s1 = s\<lparr>m_collisions := (m_collisions s)
                        \<lparr>contacts := (contacts (m_collisions s))[i := collision2]\<rparr>\<rparr>
            in applyHardCollision TREE_SCALE s1 entity collision2)
         else s\<lparr>m_collisions := (m_collisions s)
                  \<lparr>contacts := (contacts (m_collisions s))[i := collision1]\<rparr>\<rparr>)"

text \<open>One pass of the loop over the avatars.\<close>

definition collideWithAvatar ::
    "real \<Rightarrow> entity_ptr \<Rightarrow> vec3 \<Rightarrow> real \<Rightarrow> sim \<Rightarrow> AvatarData \<Rightarrow> sim" where
  "collideWithAvatar TREE_SCALE entity center radius0 s avatar =
     (let totalRadius = boundingRadius avatar + radius0;
          relativePosition = v_sub center (a_position avatar)
      in if dot relativePosition relativePosition > totalRadius * totalRadius then s
         else
           (let (found, collisions1) =
                  findSphereCollisions avatar center radius0 (m_collisions s);
                s1 = s\<lparr>m_collisions := collisions1\<rparr>
            in if found then
                 (let numCollisions = cl_size (m_collisions s1)
                  in foldl (collideWithAvatarContact TREE_SCALE entity) s1 [0..<numCollisions])
               else s1))"

definition updateCollisionWithAvatars :: "real \<Rightarrow> sim \<Rightarrow> entity_ptr \<Rightarrow> sim" where
  "updateCollisionWithAvatars TREE_SCALE s entity =
     (case avatarHash s of
        None \<Rightarrow> s
      | Some avatars \<Rightarrow>
          if ignoreForCollisions (entityTree s entity)
               \<or> \<not> collisionsWillMove (entityTree s entity) then s
          else
            (let center = v_scale TREE_SCALE (position (entityTree s entity));
                 radius0 = radius (entityTree s entity) * TREE_SCALE;
                 s0 = s\<lparr>m_collisions := cl_clear (m_collisions s)\<rparr>
             in foldl (collideWithAvatar TREE_SCALE entity center radius0) s0 avatars))"

subsection \<open>checkEntity and updateCollisions\<close>

definition checkEntity :: "real \<Rightarrow> sim \<Rightarrow> entity_ptr \<Rightarrow> sim" where
  "checkEntity TREE_SCALE s entity =
     updateCollisionWithAvatars TREE_SCALE (updateCollisionWithEntities TREE_SCALE s entity) entity"

text \<open>
  Modelled from the spec: the tree's lock is outside the files at hand.
  \<^verbatim>\<open>tryLockForWrite\<close> does not block: it takes the lock when nobody holds it and
  says whether it did.
\<close>

definition tryLockForWrite :: "sim \<Rightarrow> bool \<times> sim" where
  "tryLockForWrite s =
     (if treeLock s = Unlocked then (True, s\<lparr>treeLock := LockedForWrite\<rparr>) else (False, s))"

definition unlock :: "sim \<Rightarrow> sim" where
  "unlock s = s\<lparr>treeLock := Unlocked\<rparr>"

definition updateCollisions :: "real \<Rightarrow> sim \<Rightarrow> sim" where
  "updateCollisions TREE_SCALE s =
     (let (locked, s1) = tryLockForWrite s
      in if locked then unlock (foldl (checkEntity TREE_SCALE) s1 (movingEntities s1))
         else s1)"

text \<open>The constructor: the member list gets its capacity here, once.\<close>

definition EntityCollisionSystem_new ::
    "(entity_ptr \<Rightarrow> EntityItem) \<Rightarrow>
     ((entity_ptr \<Rightarrow> EntityItem) \<Rightarrow> entity_ptr \<Rightarrow> CollisionInfo list) \<Rightarrow>
     AvatarData list option \<Rightarrow> nat \<Rightarrow> sim" where
  "EntityCollisionSystem_new tree narrow avatars t =
     \<lparr>entityTree = tree, treeLock = Unlocked, movingEntities = [],
      m_collisions = CollisionList_new MAX_COLLISIONS_PER_Entity,
      packetQueue = [], emitted = [], avatarHash = avatars, shapeContacts = narrow,
      clock = t\<rparr>"

subsection \<open>Scenes\<close>

text \<open>Small concrete worlds on which the statements below are evaluated: entity A
  behind pointer 0 (identifier 10), entity B behind every other pointer (identifier 11),
  a world scale of 16384 and a clock that reads 7.\<close>

definition scene_entity :: "nat \<Rightarrow> bool \<Rightarrow> bool \<Rightarrow> vec3 \<Rightarrow> EntityItem" where
  "scene_entity i known movable v =
     \<lparr>entityID = i, isKnownID = known, ignoreForCollisions = False,
      collisionsWillMove = movable, position = Vec3 0 0 0, velocity = v,
      radius = 1 / 16384, largestDimension = 1, mass = 1, lastEdited = 0\<rparr>"

definition scene_contact :: "vec3 \<Rightarrow> vec3 \<Rightarrow> entity_ptr option \<Rightarrow> CollisionInfo" where
  "scene_contact pen added other =
     \<lparr>c_penetration = pen, c_contactPoint = Vec3 0 0 0, c_addedVelocity = added,
      c_damping = 0, c_elasticity = 1, c_extraData = other\<rparr>"

definition scene_avatar :: "CollisionInfo list \<Rightarrow> AvatarData" where
  "scene_avatar cs =
     \<lparr>a_position = Vec3 0 0 0, boundingRadius = 1, sphereContacts = (\<lambda>center r. cs)\<rparr>"

definition scene :: "EntityItem \<Rightarrow> EntityItem \<Rightarrow> CollisionInfo list \<Rightarrow> AvatarData list \<Rightarrow> sim" where
  "scene a b cs avatars =
     (EntityCollisionSystem_new (\<lambda>p. if p = 0 then a else b) (\<lambda>tree p. cs) (Some avatars) 7)
       \<lparr>movingEntities := [0]\<rparr>"

text \<open>A contact of A with B, one meter deep along x.\<close>

definition pair_contact :: CollisionInfo where
  "pair_contact = scene_contact (Vec3 1 0 0) (Vec3 0 0 0) (Some 1)"

text \<open>A movable, with velocity \<open>v\<close>; B at rest, movable or not; the tree reports
  their contact.\<close>

definition pair_scene :: "bool \<Rightarrow> vec3 \<Rightarrow> sim" where
  "pair_scene movableB v =
     scene (scene_entity 10 True True v) (scene_entity 11 True movableB (Vec3 0 0 0))
       [pair_contact] []"

text \<open>A at rest inside two avatars, each reporting one contact.\<close>

definition two_avatars :: sim where
  "two_avatars =
     scene (scene_entity 10 True True (Vec3 0 0 0)) (scene_entity 11 True False (Vec3 0 0 0)) []
       [scene_avatar [scene_contact (Vec3 1 0 0) (Vec3 0 1 0) None],
        scene_avatar [scene_contact (Vec3 2 0 0) (Vec3 0 2 0) None]]"

text \<open>A at rest with twenty overlaps on each path: twenty contacts with B from the
  tree, and one avatar reporting twenty contacts that move away from A.\<close>

definition crowded :: sim where
  "crowded =
     scene (scene_entity 10 True True (Vec3 0 0 0)) (scene_entity 11 True False (Vec3 0 0 0))
       (replicate 20 pair_contact)
       [scene_avatar (replicate 20 (scene_contact (Vec3 1 0 0) (Vec3 16384 0 0) None))]"

lemmas scene_defs =
  scene_def scene_entity_def scene_contact_def scene_avatar_def pair_contact_def
  pair_scene_def two_avatars_def crowded_def EntityCollisionSystem_new_def
  CollisionList_new_def MAX_COLLISIONS_PER_Entity_def

section \<open>Vectors\<close>

lemma v_div_scale: "k \<noteq> 0 \<Longrightarrow> v_div (v_scale k v) k = v"
  by (cases v) simp

lemma dot_v_div: "dot u (v_div v k) = dot u v / k"
  by (cases u; cases v) (simp add: add_divide_distrib)

lemma dot_zero_right: "dot u (Vec3 0 0 0) = 0"
  by (cases u) simp

lemma dot_zero_left: "dot (Vec3 0 0 0) v = 0"
  by (cases v) simp

lemma v_sub_self: "v_sub v v = Vec3 0 0 0"
  by (cases v) simp

lemma dot_sub_left: "dot (v_sub u w) d = dot u d - dot w d"
  by (cases u; cases w; cases d) (simp add: algebra_simps)

lemma dot_add_left: "dot (v_add u w) d = dot u d + dot w d"
  by (cases u; cases w; cases d) (simp add: algebra_simps)

lemma dot_scale_left: "dot (v_scale k u) d = k * dot u d"
  by (cases u; cases d) (simp add: algebra_simps)

lemma dot_scale_both: "dot (v_scale k u) (v_scale k d) = k * k * dot u d"
  by (cases u; cases d) (simp add: algebra_simps)

lemma glm_length_x: "glm_length (Vec3 a 0 0) = \<bar>a\<bar>"
  by (simp add: glm_length_def)

text \<open>A vector with a non-zero dot product is not the zero vector, so the two calls of
  \<^verbatim>\<open>glm::normalize\<close> in this file, both behind a strict test of such a dot product
  (given a positive world scale), never see the zero vector.\<close>

lemma dot_nonzero_right: "dot u v \<noteq> 0 \<Longrightarrow> v \<noteq> Vec3 0 0 0"
  by (auto simp: dot_zero_right)

lemma dot_self_pos: "v \<noteq> Vec3 0 0 0 \<Longrightarrow> 0 < dot v v"
proof -
  assume nz: "v \<noteq> Vec3 0 0 0"
  obtain a b c where v: "v = Vec3 a b c" by (cases v)
  have sq: "0 \<le> a * a" "0 \<le> b * b" "0 \<le> c * c" by simp_all
  from nz v consider "a \<noteq> 0" | "b \<noteq> 0" | "c \<noteq> 0" by auto
  then have "0 < a * a + b * b + c * c"
  proof cases
    case 1
    then have "0 < a * a" using not_real_square_gt_zero by blast
    with sq show ?thesis by linarith
  next
    case 2
    then have "0 < b * b" using not_real_square_gt_zero by blast
    with sq show ?thesis by linarith
  next
    case 3
    then have "0 < c * c" using not_real_square_gt_zero by blast
    with sq show ?thesis by linarith
  qed
  then show ?thesis by (simp add: v)
qed

lemma dot_normalize_self: "v \<noteq> Vec3 0 0 0 \<Longrightarrow> dot (glm_normalize v) (glm_normalize v) = 1"
proof -
  assume nz: "v \<noteq> Vec3 0 0 0"
  have pos: "0 < dot v v" by (rule dot_self_pos [OF nz])
  have "dot (glm_normalize v) (glm_normalize v)
          = (1 / sqrt (dot v v)) * (1 / sqrt (dot v v)) * dot v v"
    by (simp only: glm_normalize_def dot_scale_both)
  also have "\<dots> = dot v v / (sqrt (dot v v) * sqrt (dot v v))" by simp
  also have "\<dots> = 1" using pos by simp
  finally show ?thesis .
qed

text \<open>Dividing the penetration by a positive world scale keeps the sign of the closing
  test.\<close>

lemma closing_sign: "0 < k \<Longrightarrow> (0 < dot u (v_div v k)) = (0 < dot u v)"
  by (simp add: dot_v_div zero_less_divide_iff)

section \<open>The hard-collision response\<close>

text \<open>
  C6. In \<^verbatim>\<open>applyHardCollision\<close>, when the contact is approaching (the relative
  velocity, added velocity minus entity velocity, has a strictly negative dot product
  with the penetration) and the relative speed is strictly below
  \<^verbatim>\<open>HALTING_ENTITY_SPEED\<close>, the computed velocity is the contact's added velocity
  itself: it is what the entity holds afterwards and, scaled to meters, what the queued
  edit carries.
\<close>

theorem applyHardCollision_static_friction:
  fixes TREE_SCALE s entity collisionInfo
  defines "e \<equiv> entityTree s entity"
  defines "s' \<equiv> applyHardCollision TREE_SCALE s entity collisionInfo"
  assumes known: "isKnownID e"
    and scale: "TREE_SCALE \<noteq> 0"
    and approaching:
      "dot (v_sub (c_addedVelocity collisionInfo) (velocity e)) (c_penetration collisionInfo) < 0"
    and slow:
      "glm_length (v_sub (c_addedVelocity collisionInfo) (velocity e))
         < HALTING_ENTITY_SPEED TREE_SCALE"
  shows "snd (hardCollisionResponse TREE_SCALE (position e) (velocity e) collisionInfo)
           = c_addedVelocity collisionInfo
       \<and> velocity (entityTree s' entity) = c_addedVelocity collisionInfo
       \<and> packetQueue s' = packetQueue s @
            [(entityID e,
              \<lparr>p_position = v_scale TREE_SCALE (v_sub (position e) (c_penetration collisionInfo)),
               p_velocity = v_scale TREE_SCALE (c_addedVelocity collisionInfo),
               p_lastEdited = clock s\<rparr>)]"
proof -
  have r: "hardCollisionResponse TREE_SCALE (position e) (velocity e) collisionInfo
             = (v_sub (position e) (c_penetration collisionInfo), c_addedVelocity collisionInfo)"
    using approaching slow by (simp add: hardCollisionResponse_def EPSILON_def Let_def)
  show ?thesis
    using known r unfolding s'_def e_def
    by (simp add: applyHardCollision_def updateEntity_def queueEditEntityMessage_def
         usecTimestampNow_def v_div_scale [OF scale])
qed

theorem applyHardCollision_static_friction_witness:
  "isKnownID (entityTree (pair_scene False (Vec3 (1 / 1000000) 0 0)) 0)
   \<and> (16384 :: real) \<noteq> 0
   \<and> dot (v_sub (c_addedVelocity pair_contact)
              (velocity (entityTree (pair_scene False (Vec3 (1 / 1000000) 0 0)) 0)))
        (c_penetration pair_contact) < 0
   \<and> glm_length (v_sub (c_addedVelocity pair_contact)
              (velocity (entityTree (pair_scene False (Vec3 (1 / 1000000) 0 0)) 0)))
        < HALTING_ENTITY_SPEED 16384
   \<and> velocity (entityTree
         (applyHardCollision 16384 (pair_scene False (Vec3 (1 / 1000000) 0 0)) 0 pair_contact) 0)
        = Vec3 0 0 0
   \<and> packetQueue
         (applyHardCollision 16384 (pair_scene False (Vec3 (1 / 1000000) 0 0)) 0 pair_contact)
        = [(10, \<lparr>p_position = Vec3 (- 16384) 0 0, p_velocity = Vec3 0 0 0, p_lastEdited = 7\<rparr>)]"
proof -
  let ?s = "pair_scene False (Vec3 (1 / 1000000) 0 0)"
  have known: "isKnownID (entityTree ?s 0)" by (simp add: scene_defs)
  have scale: "(16384 :: real) \<noteq> 0" by simp
  have approaching:
    "dot (v_sub (c_addedVelocity pair_contact) (velocity (entityTree ?s 0)))
       (c_penetration pair_contact) < 0"
    by (simp add: scene_defs)
  have slow:
    "glm_length (v_sub (c_addedVelocity pair_contact) (velocity (entityTree ?s 0)))
       < HALTING_ENTITY_SPEED 16384"
    by (simp add: scene_defs glm_length_x HALTING_ENTITY_SPEED_def HALTING_ENTITY_PERIOD_def)
  from applyHardCollision_static_friction [OF known scale approaching slow]
  show ?thesis
    using known approaching slow by (simp add: scene_defs)
qed

text \<open>
  C7. In the response with elasticity 1 and damping 0, for an approaching contact whose
  relative speed is at or above \<^verbatim>\<open>HALTING_ENTITY_SPEED\<close>, the component of the
  relative velocity along the unit vector of the penetration is reversed: after the
  response it is the negative of what it was before.
\<close>

theorem hardCollisionResponse_elastic_reflection:
  assumes scale: "0 < TREE_SCALE"
    and elastic: "c_elasticity collisionInfo = 1"
    and undamped: "c_damping collisionInfo = 0"
    and approaching:
      "dot (v_sub (c_addedVelocity collisionInfo) velocity0) (c_penetration collisionInfo) < 0"
    and fast:
      "HALTING_ENTITY_SPEED TREE_SCALE
         \<le> glm_length (v_sub (c_addedVelocity collisionInfo) velocity0)"
  shows "dot (v_sub (c_addedVelocity collisionInfo)
                (snd (hardCollisionResponse TREE_SCALE position0 velocity0 collisionInfo)))
            (glm_normalize (c_penetration collisionInfo))
         = - dot (v_sub (c_addedVelocity collisionInfo) velocity0)
               (glm_normalize (c_penetration collisionInfo))"
proof -
  let ?rv = "v_sub (c_addedVelocity collisionInfo) velocity0"
  let ?d = "glm_normalize (c_penetration collisionInfo)"
  have nz: "c_penetration collisionInfo \<noteq> Vec3 0 0 0"
    using approaching dot_nonzero_right [of ?rv "c_penetration collisionInfo"] by simp
  have unit: "dot ?d ?d = 1" by (rule dot_normalize_self [OF nz])
  have v': "snd (hardCollisionResponse TREE_SCALE position0 velocity0 collisionInfo)
        = v_add (v_add velocity0 (v_scale (dot ?rv ?d * (1 + 1)) ?d))
             (v_scale (glm_clamp 0 0 1) (v_sub ?rv (v_scale (dot ?rv ?d) ?d)))"
    using approaching fast elastic undamped
    by (simp add: hardCollisionResponse_def EPSILON_def Let_def)
  show ?thesis
    unfolding v' by (simp add: dot_sub_left dot_add_left dot_scale_left unit glm_clamp_def)
qed

theorem hardCollisionResponse_elastic_reflection_witness:
  "(0 :: real) < 16384 \<and> c_elasticity pair_contact = 1 \<and> c_damping pair_contact = 0
   \<and> dot (v_sub (c_addedVelocity pair_contact) (Vec3 1 0 0)) (c_penetration pair_contact) < 0
   \<and> HALTING_ENTITY_SPEED 16384 \<le> glm_length (v_sub (c_addedVelocity pair_contact) (Vec3 1 0 0))
   \<and> dot (v_sub (c_addedVelocity pair_contact) (Vec3 1 0 0))
          (glm_normalize (c_penetration pair_contact)) = - 1
   \<and> dot (v_sub (c_addedVelocity pair_contact)
             (snd (hardCollisionResponse 16384 (Vec3 0 0 0) (Vec3 1 0 0) pair_contact)))
          (glm_normalize (c_penetration pair_contact)) = 1"
proof -
  have scale: "(0 :: real) < 16384" by simp
  have elastic: "c_elasticity pair_contact = 1" by (simp add: scene_defs)
  have undamped: "c_damping pair_contact = 0" by (simp add: scene_defs)
  have approaching:
    "dot (v_sub (c_addedVelocity pair_contact) (Vec3 1 0 0)) (c_penetration pair_contact) < 0"
    by (simp add: scene_defs)
  have fast:
    "HALTING_ENTITY_SPEED 16384 \<le> glm_length (v_sub (c_addedVelocity pair_contact) (Vec3 1 0 0))"
    by (simp add: scene_defs glm_length_x HALTING_ENTITY_SPEED_def HALTING_ENTITY_PERIOD_def)
  have before: "dot (v_sub (c_addedVelocity pair_contact) (Vec3 1 0 0))
          (glm_normalize (c_penetration pair_contact)) = - 1"
    by (simp add: scene_defs glm_normalize_def)
  from hardCollisionResponse_elastic_reflection
         [OF scale elastic undamped approaching fast, of "Vec3 0 0 0"]
  show ?thesis
    using elastic undamped approaching fast before by simp
qed

text \<open>
  C9. In the response, when the relative velocity (added velocity minus entity velocity)
  has a non-negative dot product with the penetration, position and velocity come back
  as they went in: no snap-out, no reflection, no damping, no static friction.
\<close>

theorem hardCollisionResponse_separating_unchanged:
  assumes "0 \<le> dot (v_sub (c_addedVelocity collisionInfo) velocity0)
                  (c_penetration collisionInfo)"
  shows "hardCollisionResponse TREE_SCALE position0 velocity0 collisionInfo
           = (position0, velocity0)"
  using assms by (simp add: hardCollisionResponse_def EPSILON_def Let_def)

theorem hardCollisionResponse_separating_unchanged_witness:
  "0 \<le> dot (v_sub (c_addedVelocity pair_contact) (Vec3 (- 1) 2 0)) (c_penetration pair_contact)
   \<and> hardCollisionResponse 16384 (Vec3 3 4 5) (Vec3 (- 1) 2 0) pair_contact
       = (Vec3 3 4 5, Vec3 (- 1) 2 0)"
proof -
  have separating:
    "0 \<le> dot (v_sub (c_addedVelocity pair_contact) (Vec3 (- 1) 2 0)) (c_penetration pair_contact)"
    by (simp add: scene_defs)
  from hardCollisionResponse_separating_unchanged [OF separating, of 16384 "Vec3 3 4 5"]
  show ?thesis using separating by simp
qed

text \<open>
  C10. Every call of \<^verbatim>\<open>applyHardCollision\<close> on an entity with a known identifier
  builds a property update from the computed position and velocity (scaled to meters)
  and the time read at the call, applies it to the entity in the tree and queues it as
  an edit for the entity's identifier. This happens also when the closing test inside
  fails: the update then carries the position and velocity the entity already had. An
  entity with an unknown identifier leaves the whole state as it was.
\<close>

theorem applyHardCollision_always_updates:
  fixes TREE_SCALE s entity collisionInfo
  defines "e \<equiv> entityTree s entity"
  defines "r \<equiv> hardCollisionResponse TREE_SCALE (position e) (velocity e) collisionInfo"
  defines "properties \<equiv> \<lparr>p_position = v_scale TREE_SCALE (fst r),
                           p_velocity = v_scale TREE_SCALE (snd r),
                           p_lastEdited = usecTimestampNow s\<rparr>"
  defines "s' \<equiv> applyHardCollision TREE_SCALE s entity collisionInfo"
  shows "(if isKnownID e then
            packetQueue s' = packetQueue s @ [(entityID e, properties)]
            \<and> entityTree s' = (entityTree s)(entity := e
                 \<lparr>position := v_div (p_position properties) TREE_SCALE,
                  velocity := v_div (p_velocity properties) TREE_SCALE,
                  lastEdited := usecTimestampNow s\<rparr>)
            \<and> (if 0 \<le> dot (v_sub (c_addedVelocity collisionInfo) (velocity e))
                           (c_penetration collisionInfo)
                then properties = \<lparr>p_position = v_scale TREE_SCALE (position e),
                                    p_velocity = v_scale TREE_SCALE (velocity e),
                                    p_lastEdited = usecTimestampNow s\<rparr>
                else fst r = v_sub (position e) (c_penetration collisionInfo))
          else s' = s)"
  unfolding s'_def properties_def r_def e_def
  by (simp add: applyHardCollision_def updateEntity_def queueEditEntityMessage_def
       hardCollisionResponse_def EPSILON_def Let_def split_def)

theorem applyHardCollision_always_updates_witness:
  "packetQueue (applyHardCollision 16384 (pair_scene False (Vec3 (- 1) 0 0)) 0 pair_contact)
     = [(10, \<lparr>p_position = Vec3 0 0 0, p_velocity = Vec3 (- 16384) 0 0, p_lastEdited = 7\<rparr>)]
   \<and> lastEdited (entityTree
        (applyHardCollision 16384 (pair_scene False (Vec3 (- 1) 0 0)) 0 pair_contact) 0) = 7
   \<and> applyHardCollision 16384
        (scene (scene_entity 10 False True (Vec3 (- 1) 0 0))
           (scene_entity 11 True False (Vec3 0 0 0)) [] []) 0 pair_contact
      = scene (scene_entity 10 False True (Vec3 (- 1) 0 0))
           (scene_entity 11 True False (Vec3 0 0 0)) [] []"
  using applyHardCollision_always_updates [of "pair_scene False (Vec3 (- 1) 0 0)" 0 16384 pair_contact]
    applyHardCollision_always_updates [of "scene (scene_entity 10 False True (Vec3 (- 1) 0 0))
           (scene_entity 11 True False (Vec3 0 0 0)) [] []" 0 16384 pair_contact]
  by (simp add: scene_defs usecTimestampNow_def)

section \<open>The entity-pair resolver\<close>

lemma massRatios_equal: "m \<noteq> 0 \<Longrightarrow> massRatios True True m m = (1, 1)"
  by (simp add: massRatios_def Let_def)

text \<open>
  C3. Let the tree report a contact of A with an entity B of known identifier, A movable,
  B not movable, the two closing (the relative velocity, A minus B, has a positive dot
  product with the penetration). Then the velocity-response ratios are 2 for A and 0 for
  B whatever the masses, and B is as it was. If the contact is suppressed as fully
  enclosed nothing changes at all; otherwise exactly one edit is queued, for A, with A's
  velocity reduced by twice the axial velocity and A's position moved back by half the
  penetration, the tree holds that update of A and no other, and one collision is
  emitted.
\<close>

theorem collideWithEntity_movable_hits_immovable:
  fixes TREE_SCALE s entityA entityB collision
  defines "eA \<equiv> entityTree s entityA"
  defines "eB \<equiv> entityTree s entityB"
  defines "penetrationInTreeUnits \<equiv> v_div (c_penetration collision) TREE_SCALE"
  defines "relativeVelocity \<equiv> v_sub (velocity eA) (velocity eB)"
  defines "axis \<equiv> glm_normalize (c_penetration collision)"
  defines "axialVelocity \<equiv> v_scale (dot relativeVelocity axis) axis"
  defines "newPositionA \<equiv> v_sub (position eA) (v_scale 0.5 penetrationInTreeUnits)"
  defines "newVelocityA \<equiv> v_sub (velocity eA) (v_scale 2 axialVelocity)"
  defines "propertiesA \<equiv> \<lparr>p_position = v_scale TREE_SCALE newPositionA,
                            p_velocity = v_scale TREE_SCALE newVelocityA,
                            p_lastEdited = usecTimestampNow s\<rparr>"
  defines "s' \<equiv> collideWithEntity TREE_SCALE s entityA collision"
  assumes scale: "0 < TREE_SCALE"
    and other: "c_extraData collision = Some entityB"
    and known: "isKnownID eB"
    and wantA: "collisionsWillMove eA"
    and notB: "\<not> collisionsWillMove eB"
    and closing: "0 < dot relativeVelocity (c_penetration collision)"
  shows "massRatios True False (mass eA) (mass eB) = (2, 0)
       \<and> entityTree s' entityB = eB
       \<and> (if glm_length penetrationInTreeUnits > largestDimension eA then s' = s
          else packetQueue s' = packetQueue s @ [(entityID eA, propertiesA)]
             \<and> entityTree s' = (entityTree s)(entityA := eA
                  \<lparr>position := v_div (p_position propertiesA) TREE_SCALE,
                   velocity := v_div (p_velocity propertiesA) TREE_SCALE,
                   lastEdited := usecTimestampNow s\<rparr>)
             \<and> emitted s' = emitted s @ [(entityID eA, entityID eB,
                  \<lparr>penetration = c_penetration collision,
                   contactPoint = v_scale (0.5 * TREE_SCALE)
                     (v_add (v_div (p_position propertiesA) TREE_SCALE) (position eB))\<rparr>)])"
proof -
  have ne: "entityA \<noteq> entityB"
    using wantA notB unfolding eA_def eB_def by auto
  have cl: "0 < dot (v_sub (velocity (entityTree s entityA)) (velocity (entityTree s entityB)))
                (v_div (c_penetration collision) TREE_SCALE)"
    using closing closing_sign [OF scale] unfolding relativeVelocity_def eA_def eB_def by simp
  have ratios: "massRatios True False (mass eA) (mass eB) = (2, 0)"
    by (simp add: massRatios_def Let_def)
  show ?thesis
    using ne cl other known wantA notB ratios
    unfolding s'_def propertiesA_def newVelocityA_def newPositionA_def axialVelocity_def
      axis_def relativeVelocity_def penetrationInTreeUnits_def eA_def eB_def
    by (simp add: collideWithEntity_def Let_def updateEntity_def queueEditEntityMessage_def
         emitGlobalEntityCollisionWithEntity_def)
qed

theorem collideWithEntity_movable_hits_immovable_witness:
  "(0 :: real) < 16384
   \<and> c_extraData pair_contact = Some 1
   \<and> isKnownID (entityTree (pair_scene False (Vec3 1 0 0)) 1)
   \<and> collisionsWillMove (entityTree (pair_scene False (Vec3 1 0 0)) 0)
   \<and> \<not> collisionsWillMove (entityTree (pair_scene False (Vec3 1 0 0)) 1)
   \<and> 0 < dot (v_sub (velocity (entityTree (pair_scene False (Vec3 1 0 0)) 0))
                  (velocity (entityTree (pair_scene False (Vec3 1 0 0)) 1)))
            (c_penetration pair_contact)
   \<and> entityTree (collideWithEntity 16384 (pair_scene False (Vec3 1 0 0)) 0 pair_contact) 1
       = entityTree (pair_scene False (Vec3 1 0 0)) 1
   \<and> packetQueue (collideWithEntity 16384 (pair_scene False (Vec3 1 0 0)) 0 pair_contact)
       = [(10, \<lparr>p_position = Vec3 (- (1 / 2)) 0 0, p_velocity = Vec3 (- 16384) 0 0,
                p_lastEdited = 7\<rparr>)]
   \<and> emitted (collideWithEntity 16384 (pair_scene False (Vec3 1 0 0)) 0 pair_contact)
       = [(10, 11, \<lparr>penetration = Vec3 1 0 0, contactPoint = Vec3 (- (1 / 4)) 0 0\<rparr>)]"
proof -
  let ?s = "pair_scene False (Vec3 1 0 0)"
  have scale: "(0 :: real) < 16384" by simp
  have other: "c_extraData pair_contact = Some 1" by (simp add: scene_defs)
  have known: "isKnownID (entityTree ?s 1)" by (simp add: scene_defs)
  have wantA: "collisionsWillMove (entityTree ?s 0)" by (simp add: scene_defs)
  have notB: "\<not> collisionsWillMove (entityTree ?s 1)" by (simp add: scene_defs)
  have closing: "0 < dot (v_sub (velocity (entityTree ?s 0)) (velocity (entityTree ?s 1)))
                       (c_penetration pair_contact)"
    by (simp add: scene_defs)
  from collideWithEntity_movable_hits_immovable [OF scale other known wantA notB closing]
  show ?thesis
    using other known wantA notB closing
    by (simp add: scene_defs glm_length_x glm_normalize_def usecTimestampNow_def)
qed

text \<open>
  C4. Let the tree report a contact of A with an entity B, and let the relative velocity
  (A minus B) have a non-positive dot product with the penetration. Then the pass of the
  loop for this contact leaves the whole state as it was (no update of either entity,
  no queued edit, no emitted collision), and the loop goes on with the contacts that
  follow. The state \<open>s\<close> is the one the loop has reached when the contact's turn comes.
\<close>

theorem collideWithEntity_not_closing:
  assumes scale: "0 < TREE_SCALE"
    and other: "c_extraData collision = Some entityB"
    and separating:
      "dot (v_sub (velocity (entityTree s entityA)) (velocity (entityTree s entityB)))
         (c_penetration collision) \<le> 0"
  shows "collideWithEntity TREE_SCALE s entityA collision = s
       \<and> collideWithEntities TREE_SCALE s entityA (collision # rest)
           = collideWithEntities TREE_SCALE s entityA rest"
proof -
  have "\<not> 0 < dot (v_sub (velocity (entityTree s entityA)) (velocity (entityTree s entityB)))
                (v_div (c_penetration collision) TREE_SCALE)"
    using separating closing_sign [OF scale] by simp
  then have "collideWithEntity TREE_SCALE s entityA collision = s"
    using other by (simp add: collideWithEntity_def Let_def)
  then show ?thesis by simp
qed

theorem collideWithEntity_not_closing_witness:
  "(0 :: real) < 16384
   \<and> c_extraData pair_contact = Some 1
   \<and> dot (v_sub (velocity (entityTree (pair_scene True (Vec3 (- 1) 0 0)) 0))
              (velocity (entityTree (pair_scene True (Vec3 (- 1) 0 0)) 1)))
        (c_penetration pair_contact) \<le> 0
   \<and> collideWithEntity 16384 (pair_scene True (Vec3 (- 1) 0 0)) 0 pair_contact
       = pair_scene True (Vec3 (- 1) 0 0)
   \<and> collideWithEntities 16384 (pair_scene True (Vec3 (- 1) 0 0)) 0 [pair_contact]
       = pair_scene True (Vec3 (- 1) 0 0)"
proof -
  let ?s = "pair_scene True (Vec3 (- 1) 0 0)"
  have scale: "(0 :: real) < 16384" by simp
  have other: "c_extraData pair_contact = Some 1" by (simp add: scene_defs)
  have separating: "dot (v_sub (velocity (entityTree ?s 0)) (velocity (entityTree ?s 1)))
                       (c_penetration pair_contact) \<le> 0"
    by (simp add: scene_defs)
  from collideWithEntity_not_closing [OF scale other separating, of "[]"]
  show ?thesis
    using other separating by simp
qed

text \<open>
  C5. Let the tree report a contact of A with an entity B of known identifier, both
  movable, of equal non-zero mass, closing and not suppressed as fully enclosed. Then
  both velocity-response ratios are 1, and the penetration (in tree units) is split
  evenly: the edit queued for A carries A's position minus half of it, the edit queued
  for B carries B's position plus half of it, and these are the positions the two
  entities hold afterwards.
\<close>

theorem collideWithEntity_equal_masses:
  fixes TREE_SCALE s entityA entityB collision
  defines "eA \<equiv> entityTree s entityA"
  defines "eB \<equiv> entityTree s entityB"
  defines "penetrationInTreeUnits \<equiv> v_div (c_penetration collision) TREE_SCALE"
  defines "relativeVelocity \<equiv> v_sub (velocity eA) (velocity eB)"
  defines "axis \<equiv> glm_normalize (c_penetration collision)"
  defines "axialVelocity \<equiv> v_scale (dot relativeVelocity axis) axis"
  defines "newPositionA \<equiv> v_sub (position eA) (v_scale 0.5 penetrationInTreeUnits)"
  defines "newVelocityA \<equiv> v_sub (velocity eA) (v_scale 1 axialVelocity)"
  defines "newPositionB \<equiv> v_add (position eB) (v_scale 0.5 penetrationInTreeUnits)"
  defines "newVelocityB \<equiv> v_add (velocity eB) (v_scale 1 axialVelocity)"
  defines "s' \<equiv> collideWithEntity TREE_SCALE s entityA collision"
  assumes scale: "0 < TREE_SCALE"
    and other: "c_extraData collision = Some entityB"
    and known: "isKnownID eB"
    and wantA: "collisionsWillMove eA"
    and wantB: "collisionsWillMove eB"
    and masses: "mass eA = mass eB"
    and nonzero: "mass eA \<noteq> 0"
    and closing: "0 < dot relativeVelocity (c_penetration collision)"
    and notEnclosed: "glm_length penetrationInTreeUnits \<le> largestDimension eA"
  shows "massRatios True True (mass eA) (mass eB) = (1, 1)
       \<and> packetQueue s' = packetQueue s @
            [(entityID eA, \<lparr>p_position = v_scale TREE_SCALE newPositionA,
                             p_velocity = v_scale TREE_SCALE newVelocityA,
                             p_lastEdited = usecTimestampNow s\<rparr>),
             (entityID eB, \<lparr>p_position = v_scale TREE_SCALE newPositionB,
                             p_velocity = v_scale TREE_SCALE newVelocityB,
                             p_lastEdited = usecTimestampNow s\<rparr>)]
       \<and> position (entityTree s' entityA) = newPositionA
       \<and> position (entityTree s' entityB) = newPositionB"
proof -
  have ne: "entityA \<noteq> entityB"
  proof
    assume "entityA = entityB"
    then have "relativeVelocity = Vec3 0 0 0"
      unfolding relativeVelocity_def eA_def eB_def by (simp add: v_sub_self)
    with closing show False by (simp add: dot_zero_left)
  qed
  have cl: "0 < dot (v_sub (velocity (entityTree s entityA)) (velocity (entityTree s entityB)))
                (v_div (c_penetration collision) TREE_SCALE)"
    using closing closing_sign [OF scale] unfolding relativeVelocity_def eA_def eB_def by simp
  have ratios:
    "massRatios True True (mass (entityTree s entityA)) (mass (entityTree s entityB)) = (1, 1)"
    using masses nonzero massRatios_equal [of "mass eA"] unfolding eA_def eB_def by simp
  have nz: "TREE_SCALE \<noteq> 0" using scale by simp
  show ?thesis
    using ne cl other known wantA wantB ratios notEnclosed
    unfolding s'_def newVelocityA_def newPositionA_def newVelocityB_def newPositionB_def
      axialVelocity_def axis_def relativeVelocity_def penetrationInTreeUnits_def eA_def eB_def
    by (simp add: collideWithEntity_def Let_def updateEntity_def queueEditEntityMessage_def
         emitGlobalEntityCollisionWithEntity_def v_div_scale [OF nz])
qed

theorem collideWithEntity_equal_masses_witness:
  "(0 :: real) < 16384
   \<and> c_extraData pair_contact = Some 1
   \<and> isKnownID (entityTree (pair_scene True (Vec3 1 0 0)) 1)
   \<and> collisionsWillMove (entityTree (pair_scene True (Vec3 1 0 0)) 0)
   \<and> collisionsWillMove (entityTree (pair_scene True (Vec3 1 0 0)) 1)
   \<and> mass (entityTree (pair_scene True (Vec3 1 0 0)) 0)
       = mass (entityTree (pair_scene True (Vec3 1 0 0)) 1)
   \<and> mass (entityTree (pair_scene True (Vec3 1 0 0)) 0) \<noteq> 0
   \<and> 0 < dot (v_sub (velocity (entityTree (pair_scene True (Vec3 1 0 0)) 0))
                  (velocity (entityTree (pair_scene True (Vec3 1 0 0)) 1)))
            (c_penetration pair_contact)
   \<and> glm_length (v_div (c_penetration pair_contact) 16384)
       \<le> largestDimension (entityTree (pair_scene True (Vec3 1 0 0)) 0)
   \<and> packetQueue (collideWithEntity 16384 (pair_scene True (Vec3 1 0 0)) 0 pair_contact)
       = [(10, \<lparr>p_position = Vec3 (- (1 / 2)) 0 0, p_velocity = Vec3 0 0 0,
                p_lastEdited = 7\<rparr>),
          (11, \<lparr>p_position = Vec3 (1 / 2) 0 0, p_velocity = Vec3 16384 0 0,
                p_lastEdited = 7\<rparr>)]
   \<and> position (entityTree
        (collideWithEntity 16384 (pair_scene True (Vec3 1 0 0)) 0 pair_contact) 0)
       = Vec3 (- (1 / 32768)) 0 0
   \<and> position (entityTree
        (collideWithEntity 16384 (pair_scene True (Vec3 1 0 0)) 0 pair_contact) 1)
       = Vec3 (1 / 32768) 0 0"
proof -
  let ?s = "pair_scene True (Vec3 1 0 0)"
  have scale: "(0 :: real) < 16384" by simp
  have other: "c_extraData pair_contact = Some 1" by (simp add: scene_defs)
  have known: "isKnownID (entityTree ?s 1)" by (simp add: scene_defs)
  have wantA: "collisionsWillMove (entityTree ?s 0)" by (simp add: scene_defs)
  have wantB: "collisionsWillMove (entityTree ?s 1)" by (simp add: scene_defs)
  have masses: "mass (entityTree ?s 0) = mass (entityTree ?s 1)" by (simp add: scene_defs)
  have nonzero: "mass (entityTree ?s 0) \<noteq> 0" by (simp add: scene_defs)
  have closing: "0 < dot (v_sub (velocity (entityTree ?s 0)) (velocity (entityTree ?s 1)))
                       (c_penetration pair_contact)"
    by (simp add: scene_defs)
  have notEnclosed: "glm_length (v_div (c_penetration pair_contact) 16384)
                       \<le> largestDimension (entityTree ?s 0)"
    by (simp add: scene_defs glm_length_x)
  from collideWithEntity_equal_masses
         [OF scale other known wantA wantB masses nonzero closing notEnclosed]
  show ?thesis
    using other known wantA wantB masses nonzero closing notEnclosed
    by (simp add: scene_defs glm_normalize_def usecTimestampNow_def)
qed

section \<open>The tick driver\<close>

text \<open>
  C8. When \<^verbatim>\<open>tryLockForWrite\<close> fails (the tree's lock is held), \<^verbatim>\<open>updateCollisions\<close>
  returns with the whole state as it was: no entity of the moving set is checked, the
  tree, the packet queue and the emitted collisions are untouched, the lock is not
  tried again, and nothing is reported to the caller.
\<close>

theorem updateCollisions_lock_unavailable:
  assumes "treeLock s \<noteq> Unlocked"
  shows "updateCollisions TREE_SCALE s = s"
  using assms by (simp add: updateCollisions_def tryLockForWrite_def)

theorem updateCollisions_lock_unavailable_witness:
  "treeLock ((pair_scene False (Vec3 1 0 0))\<lparr>treeLock := LockedByOther\<rparr>) \<noteq> Unlocked
   \<and> movingEntities ((pair_scene False (Vec3 1 0 0))\<lparr>treeLock := LockedByOther\<rparr>) = [0]
   \<and> updateCollisions 16384 ((pair_scene False (Vec3 1 0 0))\<lparr>treeLock := LockedByOther\<rparr>)
       = (pair_scene False (Vec3 1 0 0))\<lparr>treeLock := LockedByOther\<rparr>"
proof -
  let ?s = "(pair_scene False (Vec3 1 0 0))\<lparr>treeLock := LockedByOther\<rparr>"
  have held: "treeLock ?s \<noteq> Unlocked" by simp
  have moving: "movingEntities ?s = [0]" by (simp add: scene_defs)
  from updateCollisions_lock_unavailable [OF held, of 16384]
  show ?thesis using held moving by simp
qed

text \<open>The same scene with the lock free: the tick resolves the pair, queues the edit for
  A, emits the collision and releases the lock.\<close>

lemma updateCollisions_lock_free_scene:
  "packetQueue (updateCollisions 16384 (pair_scene False (Vec3 1 0 0)))
     = [(10, \<lparr>p_position = Vec3 (- (1 / 2)) 0 0, p_velocity = Vec3 (- 16384) 0 0,
              p_lastEdited = 7\<rparr>)]
   \<and> emitted (updateCollisions 16384 (pair_scene False (Vec3 1 0 0)))
     = [(10, 11, \<lparr>penetration = Vec3 1 0 0, contactPoint = Vec3 (- (1 / 4)) 0 0\<rparr>)]
   \<and> treeLock (updateCollisions 16384 (pair_scene False (Vec3 1 0 0))) = Unlocked"
  by (simp add: scene_defs updateCollisions_def tryLockForWrite_def unlock_def checkEntity_def
      updateCollisionWithEntities_def findShapeCollisions_def MAX_COLLISIONS_PER_ENTITY_def
      cl_size_def collideWithEntity_def massRatios_def glm_length_x glm_normalize_def
      updateEntity_def queueEditEntityMessage_def emitGlobalEntityCollisionWithEntity_def
      usecTimestampNow_def updateCollisionWithAvatars_def cl_clear_def Let_def)

section \<open>The avatar resolver and the contact lists\<close>

lemma cl_add_maxSize: "maxSize (cl_add l cs) = maxSize l"
  by (induction cs arbitrary: l) simp_all

lemma cl_add_contacts:
  "cl_size l \<le> maxSize l \<Longrightarrow>
   contacts (cl_add l cs) = contacts l @ take (maxSize l - cl_size l) cs"
proof (induction cs arbitrary: l)
  case Nil
  then show ?case by simp
next
  case (Cons c cs)
  show ?case
  proof (cases "cl_size l < maxSize l")
    case True
    let ?l = "l\<lparr>contacts := contacts l @ [c]\<rparr>"
    have fits: "cl_size ?l \<le> maxSize ?l" using True by (simp add: cl_size_def)
    have "maxSize l - cl_size l = Suc (maxSize l - Suc (cl_size l))" using True by simp
    then show ?thesis
      using True Cons.IH [OF fits] by (simp add: cl_size_def)
  next
    case False
    with Cons.prems have full: "maxSize l - cl_size l = 0" by simp
    show ?thesis using False Cons.IH [OF Cons.prems] full by simp
  qed
qed

lemma cl_add_bounded: "cl_size l \<le> maxSize l \<Longrightarrow> cl_size (cl_add l cs) \<le> maxSize l"
  by (simp add: cl_add_contacts cl_size_def)

lemma upt_2: "[0..<2] = [0, 1]"
  by (simp add: upt_rec)

text \<open>
  C1. The member list \<^verbatim>\<open>_collisions\<close> is cleared once, before the loop over the
  avatars, and for every avatar that reports a contact the inner loop runs from record 0
  to the size of the list. At the scene \<open>two_avatars\<close> the first avatar's contact
  (added velocity \<open>(0, 1, 0)\<close>, penetration \<open>(1, 0, 0)\<close>) is therefore annotated,
  divided and applied again while the second avatar is checked: after the scan its
  added velocity and its penetration have been divided by the world scale twice
  (\<open>16384 * 16384 = 268435456\<close>), and three edits are queued for two contacts.
\<close>

theorem updateCollisionWithAvatars_two_avatars:
  "map c_addedVelocity (contacts (m_collisions (updateCollisionWithAvatars 16384 two_avatars 0)))
     = [Vec3 0 (1 / 268435456) 0, Vec3 0 (2 / 16384) 0]
   \<and> map c_penetration (contacts (m_collisions (updateCollisionWithAvatars 16384 two_avatars 0)))
     = [Vec3 (1 / 268435456) 0 0, Vec3 (2 / 16384) 0 0]
   \<and> length (packetQueue (updateCollisionWithAvatars 16384 two_avatars 0)) = 3"
  by (simp add: scene_defs updateCollisionWithAvatars_def collideWithAvatar_def
      collideWithAvatarContact_def findSphereCollisions_def cl_size_def cl_clear_def
      applyHardCollision_def hardCollisionResponse_def EPSILON_def updateEntity_def
      queueEditEntityMessage_def usecTimestampNow_def DAMPING_def ELASTICITY_def Let_def upt_2)

lemma applyHardCollision_m_collisions:
  "m_collisions (applyHardCollision TREE_SCALE s entity c) = m_collisions s"
  by (simp add: applyHardCollision_def updateEntity_def queueEditEntityMessage_def Let_def
       split_def)

lemma collideWithAvatarContact_list:
  "maxSize (m_collisions (collideWithAvatarContact TREE_SCALE entity s i))
     = maxSize (m_collisions s)
   \<and> cl_size (m_collisions (collideWithAvatarContact TREE_SCALE entity s i))
     = cl_size (m_collisions s)"
  by (simp add: collideWithAvatarContact_def Let_def applyHardCollision_m_collisions cl_size_def)

lemma foldl_collideWithAvatarContact_list:
  "maxSize (m_collisions (foldl (collideWithAvatarContact TREE_SCALE entity) s is))
     = maxSize (m_collisions s)
   \<and> cl_size (m_collisions (foldl (collideWithAvatarContact TREE_SCALE entity) s is))
     = cl_size (m_collisions s)"
  by (induction "is" arbitrary: s) (simp_all add: collideWithAvatarContact_list)

text \<open>What one avatar does to the member list: nothing when the broad phase rejects it,
  otherwise its contacts are offered to the list; the inner loop rewrites records but
  keeps their number.\<close>

lemma collideWithAvatar_list:
  "maxSize (m_collisions (collideWithAvatar TREE_SCALE entity center r s avatar))
     = maxSize (m_collisions s)
   \<and> cl_size (m_collisions (collideWithAvatar TREE_SCALE entity center r s avatar))
     = (if dot (v_sub center (a_position avatar)) (v_sub center (a_position avatar))
            > (boundingRadius avatar + r) * (boundingRadius avatar + r)
        then cl_size (m_collisions s)
        else cl_size (cl_add (m_collisions s) (sphereContacts avatar center r)))"
  by (simp add: collideWithAvatar_def findSphereCollisions_def Let_def
       foldl_collideWithAvatarContact_list cl_add_maxSize)

lemma foldl_collideWithAvatar_list:
  "cl_size (m_collisions s) \<le> maxSize (m_collisions s) \<Longrightarrow>
   maxSize (m_collisions (foldl (collideWithAvatar TREE_SCALE entity center r) s avatars))
     = maxSize (m_collisions s)
   \<and> cl_size (m_collisions (foldl (collideWithAvatar TREE_SCALE entity center r) s avatars))
     \<le> maxSize (m_collisions s)"
proof (induction avatars arbitrary: s)
  case Nil
  then show ?case by simp
next
  case (Cons a avatars)
  let ?s = "collideWithAvatar TREE_SCALE entity center r s a"
  have "cl_size (m_collisions ?s) \<le> maxSize (m_collisions ?s)"
    using Cons.prems cl_add_bounded [OF Cons.prems]
    by (simp add: collideWithAvatar_list)
  from Cons.IH [OF this] show ?case by (simp add: collideWithAvatar_list)
qed

lemma updateCollisionWithAvatars_list:
  assumes "cl_size (m_collisions s) \<le> maxSize (m_collisions s)"
  shows "maxSize (m_collisions (updateCollisionWithAvatars TREE_SCALE s entity))
           = maxSize (m_collisions s)
       \<and> cl_size (m_collisions (updateCollisionWithAvatars TREE_SCALE s entity))
           \<le> maxSize (m_collisions s)"
proof -
  let ?s0 = "s\<lparr>m_collisions := cl_clear (m_collisions s)\<rparr>"
  have s0: "cl_size (m_collisions ?s0) \<le> maxSize (m_collisions ?s0)"
    by (simp add: cl_clear_def cl_size_def)
  have m0: "maxSize (m_collisions ?s0) = maxSize (m_collisions s)"
    by (simp add: cl_clear_def)
  show ?thesis
    using assms foldl_collideWithAvatar_list [OF s0] m0
    by (simp add: updateCollisionWithAvatars_def Let_def split: option.splits)
qed

text \<open>The entity-pair resolver looks at the first \<^verbatim>\<open>MAX_COLLISIONS_PER_ENTITY\<close>
  overlaps that the tree finds, in order, and at no other.\<close>

lemma updateCollisionWithEntities_take:
  "updateCollisionWithEntities TREE_SCALE s entityA =
     (if ignoreForCollisions (entityTree s entityA) then s
      else if isKnownID (entityTree s entityA) then
        collideWithEntities TREE_SCALE s entityA
          (take MAX_COLLISIONS_PER_ENTITY (shapeContacts s (entityTree s) entityA))
      else s)"
proof -
  let ?l = "CollisionList_new MAX_COLLISIONS_PER_ENTITY"
  let ?cs = "shapeContacts s (entityTree s) entityA"
  have fits: "cl_size ?l \<le> maxSize ?l" by (simp add: CollisionList_new_def cl_size_def)
  have c: "contacts (cl_add ?l ?cs) = take MAX_COLLISIONS_PER_ENTITY ?cs"
    using cl_add_contacts [OF fits, of ?cs] by (simp add: CollisionList_new_def cl_size_def)
  show ?thesis
  proof (cases "cl_size ?l < cl_size (cl_add ?l ?cs)")
    case True
    then show ?thesis
      using c by (simp add: updateCollisionWithEntities_def findShapeCollisions_def Let_def)
  next
    case False
    moreover have "cl_size ?l = 0" by (simp add: cl_size_def CollisionList_new_def)
    ultimately have "contacts (cl_add ?l ?cs) = []" by (simp add: cl_size_def)
    with c have "take MAX_COLLISIONS_PER_ENTITY ?cs = []" by (simp only:)
    then have "collideWithEntities TREE_SCALE s entityA (take MAX_COLLISIONS_PER_ENTITY ?cs) = s"
      by (simp only: collideWithEntities.simps)
    then show ?thesis
      using False by (simp add: updateCollisionWithEntities_def findShapeCollisions_def Let_def)
  qed
qed

text \<open>
  C2, as stated, fails: the two paths do not share a cap. The member list of the avatar
  resolver is built with \<^verbatim>\<open>MAX_COLLISIONS_PER_Entity = 16\<close>, the local list of the
  entity-pair resolver with its own \<^verbatim>\<open>MAX_COLLISIONS_PER_ENTITY = 32\<close>. At the scene
  \<open>crowded\<close>, with twenty overlaps on each path, the entity-pair list holds all twenty
  and the avatar list holds sixteen.
\<close>

theorem contact_caps_differ:
  "MAX_COLLISIONS_PER_Entity \<noteq> MAX_COLLISIONS_PER_ENTITY
   \<and> length (shapeContacts crowded (entityTree crowded) 0) = 20
   \<and> cl_size (snd (findShapeCollisions crowded 0 (CollisionList_new MAX_COLLISIONS_PER_ENTITY)))
       = 20
   \<and> length (sphereContacts (scene_avatar (replicate 20
         (scene_contact (Vec3 1 0 0) (Vec3 16384 0 0) None))) (Vec3 0 0 0) 1) = 20
   \<and> cl_size (m_collisions (updateCollisionWithAvatars 16384 crowded 0)) = 16"
proof -
  let ?c = "scene_contact (Vec3 1 0 0) (Vec3 16384 0 0) None"
  let ?avatar = "scene_avatar (replicate 20 ?c)"
  let ?s0 = "crowded\<lparr>m_collisions := cl_clear (m_collisions crowded)\<rparr>"
  have caps: "MAX_COLLISIONS_PER_Entity \<noteq> MAX_COLLISIONS_PER_ENTITY"
    by (simp add: MAX_COLLISIONS_PER_Entity_def MAX_COLLISIONS_PER_ENTITY_def)
  have reported: "length (shapeContacts crowded (entityTree crowded) 0) = 20"
    by (simp add: scene_defs)
  have lfits: "cl_size (CollisionList_new MAX_COLLISIONS_PER_ENTITY)
                 \<le> maxSize (CollisionList_new MAX_COLLISIONS_PER_ENTITY)"
    by (simp add: CollisionList_new_def cl_size_def)
  have pairs: "cl_size (snd (findShapeCollisions crowded 0
                 (CollisionList_new MAX_COLLISIONS_PER_ENTITY))) = 20"
    using cl_add_contacts [OF lfits, of "shapeContacts crowded (entityTree crowded) 0"] reported
    by (simp add: findShapeCollisions_def Let_def cl_size_def CollisionList_new_def
         MAX_COLLISIONS_PER_ENTITY_def)
  have offered: "length (sphereContacts ?avatar (Vec3 0 0 0) 1) = 20"
    by (simp add: scene_avatar_def)
  have run: "updateCollisionWithAvatars 16384 crowded 0
               = collideWithAvatar 16384 0 (Vec3 0 0 0) 1 ?s0 ?avatar"
    by (simp add: updateCollisionWithAvatars_def scene_defs)
  have sfits: "cl_size (m_collisions ?s0) \<le> maxSize (m_collisions ?s0)"
    by (simp add: cl_clear_def cl_size_def)
  have "cl_size (m_collisions (collideWithAvatar 16384 0 (Vec3 0 0 0) 1 ?s0 ?avatar))
          = cl_size (cl_add (m_collisions ?s0) (sphereContacts ?avatar (Vec3 0 0 0) 1))"
    by (simp add: collideWithAvatar_list) (simp add: scene_avatar_def)
  also have "\<dots> = 16"
    using cl_add_contacts [OF sfits, of "sphereContacts ?avatar (Vec3 0 0 0) 1"] offered
    by (simp add: cl_size_def cl_clear_def scene_defs)
  finally have avatars: "cl_size (m_collisions (updateCollisionWithAvatars 16384 crowded 0)) = 16"
    by (simp only: run)
  from caps reported pairs offered avatars show ?thesis by (simp only: simp_thms)
qed

text \<open>
  C2, amended. Each path has a fixed cap of its own. In a collision system whose member
  list has the capacity the constructor gives it (\<^verbatim>\<open>MAX_COLLISIONS_PER_Entity\<close>, 16)
  and holds no more than that, the list still has that capacity and holds at most 16
  records after a scan of the avatars, however many contacts the avatars report. The
  local list of the entity-pair resolver holds the first 32
  (\<^verbatim>\<open>MAX_COLLISIONS_PER_ENTITY\<close>) overlaps that the tree finds, and the scan of the
  entity pairs is the loop over those: what lies beyond either cap is dropped and the
  scan completes.
\<close>

theorem contact_lists_bounded:
  assumes cap: "maxSize (m_collisions s) = MAX_COLLISIONS_PER_Entity"
    and fits: "cl_size (m_collisions s) \<le> maxSize (m_collisions s)"
  shows "cl_size (m_collisions (updateCollisionWithAvatars TREE_SCALE s entity)) \<le> 16
       \<and> maxSize (m_collisions (updateCollisionWithAvatars TREE_SCALE s entity)) = 16
       \<and> contacts (snd (findShapeCollisions s entity (CollisionList_new MAX_COLLISIONS_PER_ENTITY)))
           = take 32 (shapeContacts s (entityTree s) entity)
       \<and> updateCollisionWithEntities TREE_SCALE s entity =
           (if ignoreForCollisions (entityTree s entity) then s
            else if isKnownID (entityTree s entity) then
              collideWithEntities TREE_SCALE s entity
                (take 32 (shapeContacts s (entityTree s) entity))
            else s)"
proof -
  let ?l = "CollisionList_new MAX_COLLISIONS_PER_ENTITY"
  have lfits: "cl_size ?l \<le> maxSize ?l" by (simp add: CollisionList_new_def cl_size_def)
  have "contacts (snd (findShapeCollisions s entity ?l))
           = take 32 (shapeContacts s (entityTree s) entity)"
    using cl_add_contacts [OF lfits, of "shapeContacts s (entityTree s) entity"]
    by (simp add: findShapeCollisions_def Let_def CollisionList_new_def cl_size_def
         MAX_COLLISIONS_PER_ENTITY_def)
  moreover have "updateCollisionWithEntities TREE_SCALE s entity =
           (if ignoreForCollisions (entityTree s entity) then s
            else if isKnownID (entityTree s entity) then
              collideWithEntities TREE_SCALE s entity
                (take 32 (shapeContacts s (entityTree s) entity))
            else s)"
    using updateCollisionWithEntities_take [of TREE_SCALE s entity]
    by (simp add: MAX_COLLISIONS_PER_ENTITY_def)
  ultimately show ?thesis
    using updateCollisionWithAvatars_list [OF fits, of TREE_SCALE entity] cap
    by (simp add: MAX_COLLISIONS_PER_Entity_def)
qed

theorem contact_lists_bounded_witness:
  "maxSize (m_collisions crowded) = MAX_COLLISIONS_PER_Entity
   \<and> cl_size (m_collisions crowded) \<le> maxSize (m_collisions crowded)
   \<and> cl_size (m_collisions (updateCollisionWithAvatars 16384 crowded 0)) \<le> 16
   \<and> contacts (snd (findShapeCollisions crowded 0 (CollisionList_new MAX_COLLISIONS_PER_ENTITY)))
       = take 32 (replicate 20 pair_contact)"
proof -
  have cap: "maxSize (m_collisions crowded) = MAX_COLLISIONS_PER_Entity"
    by (simp add: scene_defs)
  have fits: "cl_size (m_collisions crowded) \<le> maxSize (m_collisions crowded)"
    by (simp add: scene_defs cl_size_def)
  have reported: "shapeContacts crowded (entityTree crowded) 0 = replicate 20 pair_contact"
    by (simp add: crowded_def scene_def EntityCollisionSystem_new_def)
  from contact_lists_bounded [OF cap fits, of 16384 0]
  show ?thesis using cap fits reported by simp
qed

end
